theory Spec2Isabelle
  imports Complex_Main "HOL-Library.AList"
begin

section \<open>The LLM router: data model\<close>

text \<open>
  The router of the repository (class \<open>LLMRouter\<close> with its \<open>types\<close> module) is embedded
  method by method. A JavaScript \<open>number\<close> is modelled by a rational: the arithmetic of
  the router is written out as the source has it, the rounding of IEEE doubles and the
  values NaN and Infinity are outside the model. Token counts, which the provider
  reports as non-negative integers, are natural numbers. An optional field
  (\<open>maxTokens?: number\<close>) is an \<open>option\<close>; \<open>None\<close> is JavaScript's \<open>undefined\<close>.
\<close>

type_synonym number = rat

datatype Quality = Low | Medium | High

record ModelConfig =
  provider :: string
  model :: string
  maxTokens :: number
  costPer1kInput :: number
  costPer1kOutput :: number
  latencyMs :: number
  quality :: Quality
  capabilities :: "string list"

text \<open>
  \<open>maxCost\<close> is read through JavaScript truthiness (\<open>constraints.maxCost && ...\<close>), so
  the model keeps the absent value apart from zero although both behave alike.
  The field \<open>locale\<close> of the source is \<open>locale'\<close> here.
\<close>

record RoutingConstraints =
  maxCost :: "number option"
  maxLatency :: number
  requiredQuality :: Quality
  requiredCapabilities :: "string list"
  task :: string
  locale' :: string

datatype Role = system | user | assistant

record ChatMessage =
  role :: Role
  content :: string
  name :: "string option"

record ChatRequest =
  messages :: "ChatMessage list"
  model :: "string option"
  maxTokens :: "number option"
  temperature :: "number option"
  topP :: "number option"
  stream :: "bool option"

record ResponseUsage =
  promptTokens :: nat
  completionTokens :: nat
  totalTokens :: nat
  cost :: number

record ModelResponse =
  provider :: string
  model :: string
  content :: string
  usage :: ResponseUsage
  latency :: int
  metadata :: "(string \<times> string) list"

datatype EmbeddingInput = Single string | Many "string list"

record EmbeddingRequest =
  input :: EmbeddingInput
  model :: "string option"

record EmbeddingItem =
  embedding :: "number list"
  index :: nat
  object :: string

record EmbeddingResponseUsage =
  promptTokens :: nat
  totalTokens :: nat

record EmbeddingResponse =
  data :: "EmbeddingItem list"
  model :: string
  usage :: EmbeddingResponseUsage

record CostSummary =
  totalCost :: number
  totalTokens :: number
  requests :: number
  breakdown :: "(string \<times> number) list"

subsection \<open>The provider client\<close>

text \<open>
  The OpenAI client is the router's one collaborator. Its two endpoints are functions
  from the request the router builds to either a thrown error or the response object;
  the field names are those of the SDK (snake case). \<open>usage\<close> of a chat completion is
  optional in the SDK, and \<open>content\<close> of a message may be null.
\<close>

datatype error = Error string | TypeError string | APIError nat string

record ChatCompletionMessageParam =
  role :: Role
  content :: string

record ChatCompletionCreateParams =
  model :: string
  messages :: "ChatCompletionMessageParam list"
  max_tokens :: number
  temperature :: number
  top_p :: number
  stream :: bool

record ChatCompletionMessage =
  content :: "string option"

record Choice =
  message :: ChatCompletionMessage
  finish_reason :: string

record CompletionUsage =
  prompt_tokens :: nat
  completion_tokens :: nat
  total_tokens :: nat

record ChatCompletion =
  choices :: "Choice list"
  usage :: "CompletionUsage option"

record EmbeddingCreateParams =
  model :: string
  input :: EmbeddingInput

record CreateEmbeddingUsage =
  prompt_tokens :: nat
  total_tokens :: nat

record CreateEmbeddingResponse =
  data :: "EmbeddingItem list"
  usage :: CreateEmbeddingUsage

record OpenAI =
  chat_completions_create :: "ChatCompletionCreateParams \<Rightarrow> error + ChatCompletion"
  embeddings_create :: "EmbeddingCreateParams \<Rightarrow> error + CreateEmbeddingResponse"

subsection \<open>Console output\<close>

text \<open>
  What the router writes with \<open>console.log\<close> and \<open>console.error\<close>, one constructor per
  message of the source. The cost lines carry the organization and the number the
  message prints, which is \<open>cost.toFixed(6)\<close>; the summary line carries the organization
  and the month, or \<open>current\<close>.
\<close>

datatype console =
    CostTracked string number
  | EmbeddingCostTracked string number
  | ChatCompletionFailed error
  | EmbeddingGenerationFailed error
  | CostSummaryRequested string string

text \<open>
  \<open>Number.prototype.toFixed(d)\<close>: the decimal with \<open>d\<close> fraction digits closest to the
  number, the larger one of two equally close; a negative number is formatted through
  its absolute value.
\<close>

definition toFixed :: "nat \<Rightarrow> number \<Rightarrow> number" where
  "toFixed d x =
     (if x < 0 then - (of_int \<lfloor>(- x) * 10 ^ d + 1 / 2\<rfloor> / 10 ^ d)
      else of_int \<lfloor>x * 10 ^ d + 1 / 2\<rfloor> / 10 ^ d)"

section \<open>The router\<close>

text \<open>
  \<open>models\<close> is a JavaScript \<open>Map\<close>, which iterates in insertion order: an association
  list, with \<open>AList.update\<close> for \<open>Map.set\<close> (a new key is appended, an old one keeps its
  place), \<open>map_of\<close> for \<open>Map.get\<close> and \<open>map snd\<close> for \<open>Map.values\<close>.
\<close>

record LLMRouter =
  openai :: OpenAI
  models :: "(string \<times> ModelConfig) list"

definition initializeModels :: "(string \<times> ModelConfig) list" where
  "initializeModels =
     AList.update ''text-embedding-3-small''
       \<lparr>ModelConfig.provider = ''openai'', model = ''text-embedding-3-small'',
        maxTokens = 8192, costPer1kInput = 2 / 100000, costPer1kOutput = 0,
        latencyMs = 200, quality = Medium, capabilities = [''embeddings'']\<rparr>
    (AList.update ''gpt-3.5-turbo''
       \<lparr>ModelConfig.provider = ''openai'', model = ''gpt-3.5-turbo'',
        maxTokens = 16385, costPer1kInput = 5 / 10000, costPer1kOutput = 15 / 10000,
        latencyMs = 500, quality = Low,
        capabilities = [''basic_reasoning'', ''creativity'']\<rparr>
    (AList.update ''gpt-4o-mini''
       \<lparr>ModelConfig.provider = ''openai'', model = ''gpt-4o-mini'',
        maxTokens = 128000, costPer1kInput = 15 / 100000, costPer1kOutput = 6 / 10000,
        latencyMs = 1000, quality = Medium,
        capabilities = [''reasoning'', ''creativity'', ''analysis'']\<rparr>
    (AList.update ''gpt-4o''
       \<lparr>ModelConfig.provider = ''openai'', model = ''gpt-4o'',
        maxTokens = 128000, costPer1kInput = 5 / 1000, costPer1kOutput = 15 / 1000,
        latencyMs = 2000, quality = High,
        capabilities = [''reasoning'', ''creativity'', ''analysis'', ''multimodal'']\<rparr>
     [])))"

text \<open>The constructor; the client stands for \<open>new OpenAI({ apiKey })\<close>.\<close>

definition new_LLMRouter :: "OpenAI \<Rightarrow> LLMRouter" where
  "new_LLMRouter client = \<lparr>openai = client, models = initializeModels\<rparr>"

subsection \<open>routeRequest\<close>

definition combinedRate :: "ModelConfig \<Rightarrow> number" where
  "combinedRate m = costPer1kInput m + costPer1kOutput m"

text \<open>The callback of \<open>filter\<close>, with the source's early returns in their order.\<close>

definition passesFilter :: "RoutingConstraints \<Rightarrow> ModelConfig \<Rightarrow> bool" where
  "passesFilter constraints m =
     (if requiredQuality constraints = High \<and> quality m \<noteq> High then False
      else if requiredQuality constraints = Medium \<and> quality m = Low then False
      else if \<not> list_all (\<lambda>cap. cap \<in> set (capabilities m))
                   (requiredCapabilities constraints) then False
      else if (case maxCost constraints of
                 None \<Rightarrow> False
               | Some c \<Rightarrow> c \<noteq> 0 \<and> costPer1kInput m + costPer1kOutput m > c) then False
      else True)"

text \<open>
  \<open>Array.prototype.sort\<close> is stable and the comparator is the difference of the
  combined rates: a stable sort by that key, which is \<open>sort_key\<close>. \<open>hd\<close> is read only
  after the emptiness check, as \<open>availableModels[0]\<close> is.
\<close>

definition routeRequest :: "LLMRouter \<Rightarrow> RoutingConstraints \<Rightarrow> error + ModelConfig" where
  "routeRequest this constraints =
     (let availableModels = filter (passesFilter constraints) (map snd (models this))
      in if length availableModels = 0
         then Inl (Error ''No models available for the given constraints'')
         else Inr (hd (sort_key combinedRate availableModels)))"

subsection \<open>calculateCost\<close>

definition calculateCost :: "nat \<Rightarrow> nat \<Rightarrow> ModelConfig \<Rightarrow> number" where
  "calculateCost inputTokens outputTokens m =
     (let inputCost = (of_nat inputTokens / 1000) * costPer1kInput m;
          outputCost = (of_nat outputTokens / 1000) * costPer1kOutput m
      in inputCost + outputCost)"

subsection \<open>chatCompletion\<close>

text \<open>\<open>x || d\<close> on an optional number: \<open>undefined\<close> and \<open>0\<close> are falsy.\<close>

definition orDefault :: "number option \<Rightarrow> number \<Rightarrow> number" where
  "orDefault x d = (case x of None \<Rightarrow> d | Some v \<Rightarrow> if v = 0 then d else v)"

text \<open>The constraints \<open>chatCompletion\<close> routes with: a literal of the source.\<close>

definition chatConstraints :: RoutingConstraints where
  "chatConstraints =
     \<lparr>maxCost = Some (1 / 10), maxLatency = 5000, requiredQuality = Medium,
      requiredCapabilities = [''basic_reasoning''], task = ''chat'', locale' = ''en''\<rparr>"

text \<open>The argument of \<open>openai.chat.completions.create\<close>.\<close>

definition chatCreateParams :: "ModelConfig \<Rightarrow> ChatRequest \<Rightarrow> ChatCompletionCreateParams" where
  "chatCreateParams selectedModel request =
     \<lparr>ChatCompletionCreateParams.model = ModelConfig.model selectedModel,
      messages = map (\<lambda>msg. \<lparr>ChatCompletionMessageParam.role = ChatMessage.role msg,
                              content = ChatMessage.content msg\<rparr>)
                     (ChatRequest.messages request),
      max_tokens = min (orDefault (ChatRequest.maxTokens request) 1000)
                       (ModelConfig.maxTokens selectedModel),
      temperature = orDefault (ChatRequest.temperature request) (7 / 10),
      top_p = orDefault (topP request) 1,
      stream = False\<rparr>"

text \<open>
  The body of the \<open>try\<close> block. \<open>clock\<close> holds the two readings of \<open>Date.now()\<close>. The
  returned object reads \<open>completion.choices[0]\<close> after the cost line is written; with
  no choice that read throws a TypeError.
\<close>

definition chatCompletion_body ::
  "LLMRouter \<Rightarrow> ModelConfig \<Rightarrow> ChatRequest \<Rightarrow> string \<Rightarrow> int \<times> int
     \<Rightarrow> (error + ModelResponse) \<times> console list" where
  "chatCompletion_body this selectedModel request orgId clock =
     (case chat_completions_create (openai this) (chatCreateParams selectedModel request) of
        Inl e \<Rightarrow> (Inl e, [])
      | Inr completion \<Rightarrow>
          (let latency = snd clock - fst clock in
           case ChatCompletion.usage completion of
             None \<Rightarrow> (Inl (Error ''No usage data received from OpenAI''), [])
           | Some u \<Rightarrow>
               (let cost = calculateCost (CompletionUsage.prompt_tokens u)
                             (completion_tokens u) selectedModel;
                    out = [CostTracked orgId (toFixed 6 cost)]
                in case choices completion of
                     [] \<Rightarrow> (Inl (TypeError ''Cannot read properties of undefined''), out)
                   | choice # _ \<Rightarrow>
                       (Inr \<lparr>ModelResponse.provider = ModelConfig.provider selectedModel,
                             model = ModelConfig.model selectedModel,
                             content = (case ChatCompletionMessage.content (message choice) of
                                          None \<Rightarrow> '''' | Some s \<Rightarrow> s),
                             usage = \<lparr>ResponseUsage.promptTokens = CompletionUsage.prompt_tokens u,
                                      completionTokens = completion_tokens u,
                                      totalTokens = CompletionUsage.total_tokens u,
                                      cost = cost\<rparr>,
                             latency = latency,
                             metadata = [(''finishReason'', finish_reason choice),
                                         (''model'', ModelConfig.model selectedModel)]\<rparr>,
                        out))))"

text \<open>
  The \<open>try\<close> statement with its handler, for the model routing selected: an error of
  the block is written to the console and thrown again.
\<close>

definition chatCompletion_try ::
  "LLMRouter \<Rightarrow> ModelConfig \<Rightarrow> ChatRequest \<Rightarrow> string \<Rightarrow> int \<times> int
     \<Rightarrow> (error + ModelResponse) \<times> console list" where
  "chatCompletion_try this selectedModel request orgId clock =
     (case chatCompletion_body this selectedModel request orgId clock of
        (Inl e, out) \<Rightarrow> (Inl e, out @ [ChatCompletionFailed e])
      | (Inr response, out) \<Rightarrow> (Inr response, out))"

text \<open>
  \<open>routeRequest\<close> is awaited before the \<open>try\<close>: its error leaves the method as it is,
  with nothing written. \<open>userId\<close> is not read.
\<close>

definition chatCompletion ::
  "LLMRouter \<Rightarrow> ChatRequest \<Rightarrow> string \<Rightarrow> string option \<Rightarrow> int \<times> int
     \<Rightarrow> (error + ModelResponse) \<times> console list" where
  "chatCompletion this request orgId userId clock =
     (case routeRequest this chatConstraints of
        Inl e \<Rightarrow> (Inl e, [])
      | Inr selectedModel \<Rightarrow> chatCompletion_try this selectedModel request orgId clock)"

subsection \<open>generateEmbeddings\<close>

text \<open>
  The body of the \<open>try\<close> block; the latency it computes is not used. The SDK types
  \<open>usage\<close> of an embedding response as always present. The model is looked up by its
  name before the block, and its absence is thrown outside the handler.
\<close>

definition generateEmbeddings_body ::
  "LLMRouter \<Rightarrow> ModelConfig \<Rightarrow> EmbeddingRequest \<Rightarrow> string
     \<Rightarrow> (error + EmbeddingResponse) \<times> console list" where
  "generateEmbeddings_body this embeddingModel request orgId =
     (case embeddings_create (openai this)
             \<lparr>EmbeddingCreateParams.model = ModelConfig.model embeddingModel,
              input = EmbeddingRequest.input request\<rparr> of
        Inl e \<Rightarrow> (Inl e, [])
      | Inr embeddings \<Rightarrow>
          (let cost = calculateCost
                        (CreateEmbeddingUsage.prompt_tokens (CreateEmbeddingResponse.usage embeddings))
                        0 embeddingModel
           in (Inr \<lparr>EmbeddingResponse.data =
                       map (\<lambda>item. \<lparr>embedding = embedding item, index = index item,
                                      object = object item\<rparr>)
                           (CreateEmbeddingResponse.data embeddings),
                     model = ModelConfig.model embeddingModel,
                     usage = \<lparr>EmbeddingResponseUsage.promptTokens =
                                CreateEmbeddingUsage.prompt_tokens (CreateEmbeddingResponse.usage embeddings),
                              totalTokens =
                                CreateEmbeddingUsage.total_tokens (CreateEmbeddingResponse.usage embeddings)\<rparr>\<rparr>,
               [EmbeddingCostTracked orgId (toFixed 6 cost)])))"

definition generateEmbeddings ::
  "LLMRouter \<Rightarrow> EmbeddingRequest \<Rightarrow> string \<Rightarrow> (error + EmbeddingResponse) \<times> console list" where
  "generateEmbeddings this request orgId =
     (case map_of (models this) ''text-embedding-3-small'' of
        None \<Rightarrow> (Inl (Error ''Embedding model not available''), [])
      | Some embeddingModel \<Rightarrow>
          (case generateEmbeddings_body this embeddingModel request orgId of
             (Inl e, out) \<Rightarrow> (Inl e, out @ [EmbeddingGenerationFailed e])
           | (Inr response, out) \<Rightarrow> (Inr response, out)))"

subsection \<open>getCostSummary\<close>

definition getCostSummary ::
  "LLMRouter \<Rightarrow> string \<Rightarrow> string option \<Rightarrow> CostSummary \<times> console list" where
  "getCostSummary this orgId month =
     (\<lparr>totalCost = 0, totalTokens = 0, requests = 0, breakdown = []\<rparr>,
      [CostSummaryRequested orgId
         (case month of None \<Rightarrow> ''current'' | Some s \<Rightarrow> if s = '''' then ''current'' else s)])"

section \<open>The specification's vocabulary\<close>

text \<open>
  The three filters in the words of the specification, to be compared with
  \<open>passesFilter\<close>: the quality tiers are ordered low, medium, high and a model needs
  at least the required tier; every required capability is among the model's; the
  combined rate is at most \<open>maxCost\<close>, and an absent or zero \<open>maxCost\<close> is no ceiling.
\<close>

fun qualityRank :: "Quality \<Rightarrow> nat" where
  "qualityRank Low = 0"
| "qualityRank Medium = 1"
| "qualityRank High = 2"

definition meetsQuality :: "RoutingConstraints \<Rightarrow> ModelConfig \<Rightarrow> bool" where
  "meetsQuality constraints m =
     (qualityRank (requiredQuality constraints) \<le> qualityRank (quality m))"

definition hasCapabilities :: "RoutingConstraints \<Rightarrow> ModelConfig \<Rightarrow> bool" where
  "hasCapabilities constraints m =
     (set (requiredCapabilities constraints) \<subseteq> set (capabilities m))"

definition withinBudget :: "RoutingConstraints \<Rightarrow> ModelConfig \<Rightarrow> bool" where
  "withinBudget constraints m =
     (case maxCost constraints of
        None \<Rightarrow> True
      | Some c \<Rightarrow> if c = 0 then True else costPer1kInput m + costPer1kOutput m \<le> c)"

definition feasible :: "RoutingConstraints \<Rightarrow> ModelConfig \<Rightarrow> bool" where
  "feasible constraints m =
     (meetsQuality constraints m \<and> hasCapabilities constraints m \<and>
      withinBudget constraints m)"

text \<open>The catalog in insertion order, as \<open>Array.from(this.models.values())\<close> lists it.\<close>

definition catalog :: "LLMRouter \<Rightarrow> ModelConfig list" where
  "catalog this = map snd (models this)"

text \<open>The texts of an embedding request: a single string is one text.\<close>

fun inputTexts :: "EmbeddingInput \<Rightarrow> string list" where
  "inputTexts (Single s) = [s]"
| "inputTexts (Many ss) = ss"

section \<open>Sample inputs\<close>

text \<open>
  Clients, catalogs and requests at which the theorems below are instantiated. The
  first client answers every call with an error; the second answers a chat with one
  choice and a usage of 101 and 50 tokens, and an embedding request with one vector
  per text, numbered in order, and a usage of 2500 tokens; the third answers a chat without usage.
\<close>

definition unavailableClient :: OpenAI where
  "unavailableClient =
     \<lparr>chat_completions_create = (\<lambda>params. Inl (APIError 503 ''Service Unavailable'')),
      embeddings_create = (\<lambda>params. Inl (APIError 503 ''Service Unavailable''))\<rparr>"

definition sampleClient :: OpenAI where
  "sampleClient =
     \<lparr>chat_completions_create = (\<lambda>params.
        Inr \<lparr>choices = [\<lparr>message = \<lparr>ChatCompletionMessage.content = Some ''Hello''\<rparr>,
                          finish_reason = ''stop''\<rparr>],
             usage = Some \<lparr>CompletionUsage.prompt_tokens = 101, completion_tokens = 50,
                           total_tokens = 151\<rparr>\<rparr>),
      embeddings_create = (\<lambda>params.
        Inr \<lparr>CreateEmbeddingResponse.data =
               map (\<lambda>(i, t). \<lparr>embedding = [of_nat (length t)], index = i,
                                object = ''embedding''\<rparr>)
                   (enumerate 0 (inputTexts (EmbeddingCreateParams.input params))),
             usage = \<lparr>CreateEmbeddingUsage.prompt_tokens = 2500, total_tokens = 2500\<rparr>\<rparr>)\<rparr>"

definition noUsageClient :: OpenAI where
  "noUsageClient =
     \<lparr>chat_completions_create = (\<lambda>params.
        Inr \<lparr>choices = [\<lparr>message = \<lparr>ChatCompletionMessage.content = Some ''Hello''\<rparr>,
                          finish_reason = ''stop''\<rparr>],
             usage = None\<rparr>),
      embeddings_create = (\<lambda>params. Inl (APIError 503 ''Service Unavailable''))\<rparr>"

text \<open>The second entry of the shipped catalog.\<close>

definition gpt_4o_mini :: ModelConfig where
  "gpt_4o_mini = snd (initializeModels ! 1)"

text \<open>A catalog of two models with one combined rate, the later one the faster.\<close>

definition tiedModelA :: ModelConfig where
  "tiedModelA =
     \<lparr>ModelConfig.provider = ''openai'', model = ''model-a'', maxTokens = 4096,
      costPer1kInput = 1 / 1000, costPer1kOutput = 1 / 1000, latencyMs = 2000,
      quality = Medium, capabilities = [''reasoning'']\<rparr>"

definition tiedModelB :: ModelConfig where
  "tiedModelB =
     \<lparr>ModelConfig.provider = ''openai'', model = ''model-b'', maxTokens = 4096,
      costPer1kInput = 1 / 1000, costPer1kOutput = 1 / 1000, latencyMs = 500,
      quality = Medium, capabilities = [''reasoning'']\<rparr>"

definition tiedRouter :: LLMRouter where
  "tiedRouter =
     \<lparr>openai = unavailableClient,
      models = AList.update ''model-b'' tiedModelB (AList.update ''model-a'' tiedModelA [])\<rparr>"


definition uncappedConstraints :: RoutingConstraints where
  "uncappedConstraints =
     \<lparr>maxCost = Some 0, maxLatency = 5000, requiredQuality = High,
      requiredCapabilities = [''multimodal''], task = ''vision'', locale' = ''en''\<rparr>"

definition sampleRequest :: ChatRequest where
  "sampleRequest =
     \<lparr>ChatRequest.messages = [\<lparr>ChatMessage.role = user, content = ''Hi'', name = None\<rparr>],
      model = None, maxTokens = None, temperature = None, topP = None, stream = None\<rparr>"

definition tunedRequest :: ChatRequest where
  "tunedRequest =
     \<lparr>ChatRequest.messages = [\<lparr>ChatMessage.role = user, content = ''Hi'', name = None\<rparr>],
      model = None, maxTokens = Some 200000, temperature = Some (3 / 2), topP = Some (1 / 2),
      stream = None\<rparr>"

definition zeroedRequest :: ChatRequest where
  "zeroedRequest =
     \<lparr>ChatRequest.messages = [\<lparr>ChatMessage.role = user, content = ''Hi'', name = None\<rparr>],
      model = None, maxTokens = Some 0, temperature = Some 0, topP = Some 0,
      stream = None\<rparr>"

definition sampleEmbeddingRequest :: EmbeddingRequest where
  "sampleEmbeddingRequest =
     \<lparr>EmbeddingRequest.input = Many [''alpha'', ''be''], model = None\<rparr>"

section \<open>Routing\<close>

subsection \<open>The filter is the specification's three filters\<close>

lemma passesFilter_feasible: "passesFilter constraints m = feasible constraints m"
  by (cases "requiredQuality constraints"; cases "quality m")
     (auto simp: passesFilter_def feasible_def meetsQuality_def hasCapabilities_def
        withinBudget_def list_all_iff split: option.splits)

lemma routeRequest_unfold:
  "routeRequest this constraints =
     (if filter (feasible constraints) (catalog this) = []
      then Inl (Error ''No models available for the given constraints'')
      else Inr (hd (sort_key combinedRate (filter (feasible constraints) (catalog this)))))"
proof -
  have "passesFilter constraints = feasible constraints"
    by (rule ext) (rule passesFilter_feasible)
  then show ?thesis by (simp add: routeRequest_def catalog_def Let_def)
qed

subsection \<open>The head of a stable sort\<close>




subsection \<open>Evaluation on the sample inputs\<close>

lemmas catalog_eval =
  catalog_def new_LLMRouter_def initializeModels_def tiedRouter_def tiedModelA_def tiedModelB_def

lemmas feasible_eval =
  feasible_def meetsQuality_def hasCapabilities_def withinBudget_def combinedRate_def

lemma gpt_4o_mini_eq:
  "gpt_4o_mini =
     \<lparr>ModelConfig.provider = ''openai'', model = ''gpt-4o-mini'',
      maxTokens = 128000, costPer1kInput = 15 / 100000, costPer1kOutput = 6 / 10000,
      latencyMs = 1000, quality = Medium,
      capabilities = [''reasoning'', ''creativity'', ''analysis'']\<rparr>"
  by (simp add: gpt_4o_mini_def initializeModels_def)

text \<open>The constructed router always finds the model \<open>generateEmbeddings\<close> looks up.\<close>

lemma embedding_model:
  "map_of (models (new_LLMRouter client)) ''text-embedding-3-small'' =
     Some \<lparr>ModelConfig.provider = ''openai'', model = ''text-embedding-3-small'',
        maxTokens = 8192, costPer1kInput = 2 / 100000, costPer1kOutput = 0,
        latencyMs = 200, quality = Medium, capabilities = [''embeddings'']\<rparr>"
  by (simp add: new_LLMRouter_def initializeModels_def)


subsection \<open>The selected model\<close>




subsection \<open>No feasible model\<close>



subsection \<open>No cost ceiling\<close>

text \<open>
  C8. When \<open>maxCost\<close> is absent or zero, the cost filter excludes no model: a model
  passes the filter of \<open>routeRequest\<close> exactly when it meets the quality tier and has
  the capabilities, and \<open>routeRequest\<close> returns a model exactly when some catalog
  model does.
\<close>

theorem routeRequest_no_ceiling:
  assumes "maxCost constraints = None \<or> maxCost constraints = Some 0"
  shows "withinBudget constraints m \<and>
         passesFilter constraints m = (meetsQuality constraints m \<and> hasCapabilities constraints m) \<and>
         ((\<exists>selected. routeRequest this constraints = Inr selected) =
          (\<exists>x\<in>set (catalog this). meetsQuality constraints x \<and> hasCapabilities constraints x))"
proof -
  from assms have wb: "\<And>x. withinBudget constraints x"
    by (auto simp: withinBudget_def)
  then have f: "\<And>x. feasible constraints x = (meetsQuality constraints x \<and> hasCapabilities constraints x)"
    by (simp add: feasible_def)
  have "(\<exists>selected. routeRequest this constraints = Inr selected) =
        (filter (feasible constraints) (catalog this) \<noteq> [])"
    by (simp add: routeRequest_unfold)
  also have "\<dots> = (\<exists>x\<in>set (catalog this). feasible constraints x)"
    by (simp add: filter_empty_conv)
  finally show ?thesis using wb f by (simp add: passesFilter_feasible)
qed

theorem routeRequest_no_ceiling_witness:
  "maxCost uncappedConstraints = Some 0 \<and>
   0 < combinedRate (catalog (new_LLMRouter unavailableClient) ! 0) \<and>
   passesFilter uncappedConstraints (catalog (new_LLMRouter unavailableClient) ! 0) \<and>
   routeRequest (new_LLMRouter unavailableClient) uncappedConstraints =
     Inr (catalog (new_LLMRouter unavailableClient) ! 0)"
proof -
  have h: "maxCost uncappedConstraints = None \<or> maxCost uncappedConstraints = Some 0"
    by (simp add: uncappedConstraints_def)
  from routeRequest_no_ceiling
         [OF h, of "catalog (new_LLMRouter unavailableClient) ! 0" "new_LLMRouter unavailableClient"]
  have "passesFilter uncappedConstraints (catalog (new_LLMRouter unavailableClient) ! 0) =
        (meetsQuality uncappedConstraints (catalog (new_LLMRouter unavailableClient) ! 0) \<and>
         hasCapabilities uncappedConstraints (catalog (new_LLMRouter unavailableClient) ! 0))"
    by simp
  then have "passesFilter uncappedConstraints (catalog (new_LLMRouter unavailableClient) ! 0)"
    by (simp add: catalog_eval feasible_eval uncappedConstraints_def)
  moreover have "routeRequest (new_LLMRouter unavailableClient) uncappedConstraints =
     Inr (catalog (new_LLMRouter unavailableClient) ! 0)"
    by (simp add: routeRequest_unfold catalog_eval feasible_eval uncappedConstraints_def)
  ultimately show ?thesis
    by (simp add: uncappedConstraints_def) (simp add: catalog_eval feasible_eval)
qed

section \<open>Chat completion\<close>

text \<open>
  Once routing has selected a model, \<open>chatCompletion\<close> is its \<open>try\<close> statement for that
  model. The theorems on the chat after routing are stated on \<open>chatCompletion_try\<close>,
  for every selected model.
\<close>

lemma chatCompletion_routed:
  "routeRequest this chatConstraints = Inr selectedModel \<Longrightarrow>
   chatCompletion this request orgId userId clock =
     chatCompletion_try this selectedModel request orgId clock"
  by (simp add: chatCompletion_def)

text \<open>
  C2. The constraints \<open>chatCompletion\<close> routes with require the capability
  \<open>basic_reasoning\<close> at quality medium. The one catalog model with that capability is
  of quality low, so on the router the constructor builds every chat completion
  fails in routing: no model is selected, the provider is not called and no response
  is returned.
\<close>

theorem chatCompletion_always_unroutable:
  "chatCompletion (new_LLMRouter client) request orgId userId clock =
     (Inl (Error ''No models available for the given constraints''), [])"
  by (simp add: chatCompletion_def routeRequest_def new_LLMRouter_def initializeModels_def
        passesFilter_def chatConstraints_def)



text \<open>
  C9. When the provider answers a chat without usage, the \<open>try\<close> statement of
  \<open>chatCompletion\<close> fails with the error \<open>No usage data received from OpenAI\<close>: no
  response is returned, and the console holds the failure line alone, so no token
  count was made up and no cost was computed.
\<close>

theorem chatCompletion_missing_usage:
  assumes "chat_completions_create (openai this) (chatCreateParams selectedModel request) =
             Inr completion"
      and "ChatCompletion.usage completion = None"
  shows "chatCompletion_try this selectedModel request orgId clock =
           (Inl (Error ''No usage data received from OpenAI''),
            [ChatCompletionFailed (Error ''No usage data received from OpenAI'')])"
  using assms by (simp add: chatCompletion_try_def chatCompletion_body_def)

theorem chatCompletion_missing_usage_witness:
  "chatCompletion_try (new_LLMRouter noUsageClient) gpt_4o_mini sampleRequest ''org-1'' (10, 25) =
     (Inl (Error ''No usage data received from OpenAI''),
      [ChatCompletionFailed (Error ''No usage data received from OpenAI'')])"
proof -
  let ?completion =
    "\<lparr>choices = [\<lparr>message = \<lparr>ChatCompletionMessage.content = Some ''Hello''\<rparr>,
                   finish_reason = ''stop''\<rparr>],
      usage = None\<rparr>"
  have c: "chat_completions_create (openai (new_LLMRouter noUsageClient))
             (chatCreateParams gpt_4o_mini sampleRequest) = Inr ?completion"
    by (simp add: new_LLMRouter_def noUsageClient_def)
  have u: "ChatCompletion.usage ?completion = None" by simp
  show ?thesis by (rule chatCompletion_missing_usage [OF c u])
qed

text \<open>
  C10. In the request \<open>chatCompletion\<close> sends to the provider a generation parameter
  that is zero is treated as one that is omitted: \<open>maxTokens\<close> becomes 1000, capped by
  the model's \<open>maxTokens\<close>, \<open>temperature\<close> becomes 0.7 and \<open>topP\<close> becomes 1. A nonzero
  \<open>temperature\<close> or \<open>topP\<close> is sent as it is, and a nonzero \<open>maxTokens\<close> as the smaller
  of it and the model's \<open>maxTokens\<close>.
\<close>

theorem chatCreateParams_zero_is_omitted:
  "chatCreateParams selectedModel
     (request\<lparr>ChatRequest.maxTokens := Some 0, ChatRequest.temperature := Some 0, topP := Some 0\<rparr>) =
   chatCreateParams selectedModel
     (request\<lparr>ChatRequest.maxTokens := None, ChatRequest.temperature := None, topP := None\<rparr>) \<and>
   ((ChatRequest.maxTokens request = None \<or> ChatRequest.maxTokens request = Some 0) \<longrightarrow>
      max_tokens (chatCreateParams selectedModel request) =
        min 1000 (ModelConfig.maxTokens selectedModel)) \<and>
   ((ChatRequest.temperature request = None \<or> ChatRequest.temperature request = Some 0) \<longrightarrow>
      ChatCompletionCreateParams.temperature (chatCreateParams selectedModel request) = 7 / 10) \<and>
   ((topP request = None \<or> topP request = Some 0) \<longrightarrow>
      top_p (chatCreateParams selectedModel request) = 1) \<and>
   (ChatRequest.maxTokens request = Some n \<and> n \<noteq> 0 \<longrightarrow>
      max_tokens (chatCreateParams selectedModel request) =
        min n (ModelConfig.maxTokens selectedModel)) \<and>
   (ChatRequest.temperature request = Some t \<and> t \<noteq> 0 \<longrightarrow>
      ChatCompletionCreateParams.temperature (chatCreateParams selectedModel request) = t) \<and>
   (topP request = Some p \<and> p \<noteq> 0 \<longrightarrow>
      top_p (chatCreateParams selectedModel request) = p)"
  by (auto simp: chatCreateParams_def orDefault_def)

theorem chatCreateParams_zero_is_omitted_witness:
  "chatCreateParams gpt_4o_mini zeroedRequest = chatCreateParams gpt_4o_mini sampleRequest \<and>
   max_tokens (chatCreateParams gpt_4o_mini zeroedRequest) = 1000 \<and>
   ChatCompletionCreateParams.temperature (chatCreateParams gpt_4o_mini zeroedRequest) = 7 / 10 \<and>
   top_p (chatCreateParams gpt_4o_mini zeroedRequest) = 1 \<and>
   max_tokens (chatCreateParams gpt_4o_mini tunedRequest) = 128000 \<and>
   ChatCompletionCreateParams.temperature (chatCreateParams gpt_4o_mini tunedRequest) = 3 / 2 \<and>
   top_p (chatCreateParams gpt_4o_mini tunedRequest) = 1 / 2"
proof -
  have z: "sampleRequest\<lparr>ChatRequest.maxTokens := Some 0, ChatRequest.temperature := Some 0,
                         topP := Some 0\<rparr> = zeroedRequest"
    and s: "sampleRequest\<lparr>ChatRequest.maxTokens := None, ChatRequest.temperature := None,
                         topP := None\<rparr> = sampleRequest"
    by (simp_all add: zeroedRequest_def sampleRequest_def)
  have hz: "ChatRequest.maxTokens zeroedRequest = Some 0"
    "ChatRequest.temperature zeroedRequest = Some 0" "topP zeroedRequest = Some 0"
    by (simp_all add: zeroedRequest_def)
  have ht: "ChatRequest.maxTokens tunedRequest = Some 200000"
    "ChatRequest.temperature tunedRequest = Some (3 / 2)" "topP tunedRequest = Some (1 / 2)"
    by (simp_all add: tunedRequest_def)
  have nz: "(200000::rat) \<noteq> 0" "(3 / 2::rat) \<noteq> 0" "(1 / 2::rat) \<noteq> 0"
    by simp_all
  have mt: "ModelConfig.maxTokens gpt_4o_mini = 128000"
    by (simp add: gpt_4o_mini_eq)
  from chatCreateParams_zero_is_omitted
         [where selectedModel = gpt_4o_mini and request = sampleRequest]
  have same: "chatCreateParams gpt_4o_mini zeroedRequest = chatCreateParams gpt_4o_mini sampleRequest"
    unfolding z s by (rule conjunct1)
  from chatCreateParams_zero_is_omitted
         [where selectedModel = gpt_4o_mini and request = zeroedRequest] hz
  have zero: "max_tokens (chatCreateParams gpt_4o_mini zeroedRequest) =
        min 1000 (ModelConfig.maxTokens gpt_4o_mini)"
    "ChatCompletionCreateParams.temperature (chatCreateParams gpt_4o_mini zeroedRequest) = 7 / 10"
    "top_p (chatCreateParams gpt_4o_mini zeroedRequest) = 1"
    by blast+
  from chatCreateParams_zero_is_omitted
         [where selectedModel = gpt_4o_mini and request = tunedRequest
            and n = 200000 and t = "3 / 2" and p = "1 / 2"] ht nz
  have tuned: "max_tokens (chatCreateParams gpt_4o_mini tunedRequest) =
        min 200000 (ModelConfig.maxTokens gpt_4o_mini)"
    "ChatCompletionCreateParams.temperature (chatCreateParams gpt_4o_mini tunedRequest) = 3 / 2"
    "top_p (chatCreateParams gpt_4o_mini tunedRequest) = 1 / 2"
    by blast+
  show ?thesis unfolding same [symmetric] zero tuned mt by simp
qed

section \<open>Provider failures\<close>

text \<open>
  C7. When the provider call fails, the \<open>try\<close> statement of \<open>chatCompletion\<close> and
  \<open>generateEmbeddings\<close> end with the provider's own error: no response is returned,
  and the console holds the failure line alone, so no cost was computed or tracked
  for the call.
\<close>

theorem failure_resurfaced:
  "(chat_completions_create (openai this) (chatCreateParams selectedModel request) = Inl e \<longrightarrow>
      chatCompletion_try this selectedModel request orgId clock =
        (Inl e, [ChatCompletionFailed e])) \<and>
   (map_of (models this) ''text-embedding-3-small'' = Some embeddingModel \<longrightarrow>
    embeddings_create (openai this)
      \<lparr>EmbeddingCreateParams.model = ModelConfig.model embeddingModel,
       input = EmbeddingRequest.input erequest\<rparr> = Inl e' \<longrightarrow>
      generateEmbeddings this erequest orgId' = (Inl e', [EmbeddingGenerationFailed e']))"
  by (simp add: chatCompletion_try_def chatCompletion_body_def generateEmbeddings_def
        generateEmbeddings_body_def)

theorem failure_resurfaced_witness:
  "chatCompletion_try (new_LLMRouter unavailableClient) gpt_4o_mini sampleRequest ''org-1'' (10, 25) =
     (Inl (APIError 503 ''Service Unavailable''),
      [ChatCompletionFailed (APIError 503 ''Service Unavailable'')]) \<and>
   generateEmbeddings (new_LLMRouter unavailableClient) sampleEmbeddingRequest ''org-1'' =
     (Inl (APIError 503 ''Service Unavailable''),
      [EmbeddingGenerationFailed (APIError 503 ''Service Unavailable'')])"
proof -
  have c: "chat_completions_create (openai (new_LLMRouter unavailableClient))
             (chatCreateParams gpt_4o_mini sampleRequest) = Inl (APIError 503 ''Service Unavailable'')"
    by (simp add: new_LLMRouter_def unavailableClient_def)
  have m: "map_of (models (new_LLMRouter unavailableClient)) ''text-embedding-3-small'' =
             Some (snd (initializeModels ! 3))"
    by (simp add: new_LLMRouter_def initializeModels_def)
  have e: "embeddings_create (openai (new_LLMRouter unavailableClient))
      \<lparr>EmbeddingCreateParams.model = ModelConfig.model (snd (initializeModels ! 3)),
       input = EmbeddingRequest.input sampleEmbeddingRequest\<rparr> = Inl (APIError 503 ''Service Unavailable'')"
    by (simp add: new_LLMRouter_def unavailableClient_def)
  from failure_resurfaced
         [where this = "new_LLMRouter unavailableClient" and selectedModel = gpt_4o_mini
            and request = sampleRequest and e = "APIError 503 ''Service Unavailable''"
            and orgId = "''org-1''" and clock = "(10, 25)"
            and embeddingModel = "snd (initializeModels ! 3)"
            and erequest = sampleEmbeddingRequest
            and e' = "APIError 503 ''Service Unavailable''" and orgId' = "''org-1''"]
       c m e
  show ?thesis by simp
qed

section \<open>Embeddings\<close>




section \<open>Cost summary\<close>

text \<open>
  C3, as the code has it. The router keeps no ledger: for every organization and
  month, and whatever calls were made before, \<open>getCostSummary\<close> returns a total cost of
  0, 0 tokens, 0 requests and an empty breakdown, and writes one console line.
\<close>

theorem getCostSummary_placeholder:
  "getCostSummary this orgId month =
     (\<lparr>totalCost = 0, totalTokens = 0, requests = 0, breakdown = []\<rparr>,
      [CostSummaryRequested orgId
         (case month of None \<Rightarrow> ''current'' | Some s \<Rightarrow> if s = [] then ''current'' else s)])"
  by (simp add: getCostSummary_def)

text \<open>
  C3 as stated fails after one successful call: an embedding call for \<open>org-1\<close> uses
  2500 tokens at a cost of 1/20000, and the summary for \<open>org-1\<close> still counts no
  request, no token and no cost.
\<close>

theorem getCostSummary_counterexample:
  "generateEmbeddings (new_LLMRouter sampleClient) sampleEmbeddingRequest ''org-1'' =
     (Inr \<lparr>EmbeddingResponse.data =
             [\<lparr>embedding = [5], index = 0, object = ''embedding''\<rparr>,
              \<lparr>embedding = [2], index = 1, object = ''embedding''\<rparr>],
           model = ''text-embedding-3-small'',
           usage = \<lparr>EmbeddingResponseUsage.promptTokens = 2500, totalTokens = 2500\<rparr>\<rparr>,
      [EmbeddingCostTracked ''org-1'' (1 / 20000)]) \<and>
   calculateCost 2500 0 (snd (initializeModels ! 3)) = 1 / 20000 \<and>
   requests (fst (getCostSummary (new_LLMRouter sampleClient) ''org-1'' None)) \<noteq> 1 \<and>
   CostSummary.totalTokens (fst (getCostSummary (new_LLMRouter sampleClient) ''org-1'' None)) \<noteq> 2500 \<and>
   totalCost (fst (getCostSummary (new_LLMRouter sampleClient) ''org-1'' None)) \<noteq> 1 / 20000"
proof -
  have f: "toFixed 6 (1 / 20000) = 1 / 20000"
    by code_simp
  have "generateEmbeddings (new_LLMRouter sampleClient) sampleEmbeddingRequest ''org-1'' =
     (Inr \<lparr>EmbeddingResponse.data =
             [\<lparr>embedding = [5], index = 0, object = ''embedding''\<rparr>,
              \<lparr>embedding = [2], index = 1, object = ''embedding''\<rparr>],
           model = ''text-embedding-3-small'',
           usage = \<lparr>EmbeddingResponseUsage.promptTokens = 2500, totalTokens = 2500\<rparr>\<rparr>,
      [EmbeddingCostTracked ''org-1'' (toFixed 6 (1 / 20000))])"
    by (simp add: generateEmbeddings_def generateEmbeddings_body_def new_LLMRouter_def
          initializeModels_def sampleClient_def sampleEmbeddingRequest_def calculateCost_def)
  moreover have "calculateCost 2500 0 (snd (initializeModels ! 3)) = 1 / 20000"
    by (simp add: calculateCost_def initializeModels_def)
  ultimately show ?thesis
    unfolding f by (simp add: getCostSummary_def)
qed

end
